theory Spec2Isabelle
  imports Main
begin

text \<open>
  A model of \<open>SnuggeryArchitectHost\<close>, the architect host of the snuggery command line.
  The sources hold it twice. One version resolves packages, reads manifests and merges
  the options of a target itself; line numbers given without a file name are lines of
  that version. The other, \<open>packages/snuggery/src/cli/architect/host.ts\<close>, leaves those
  steps to a \<open>ResolverFacade\<close> and a \<open>WorkspaceFacade\<close> and keeps the splitting of the
  specifier, the validation of the entry and the loading of the implementation. Where
  the two differ, the function of \<open>host.ts\<close> is modelled under the same name with the
  prefix \<open>host_\<close>.
\<close>

section \<open>JavaScript values\<close>

text \<open>
  The host moves three kinds of values around: JSON documents (manifests, schemas, option
  objects), the values a module exports, and strings. One datatype covers them. An object
  is the list of its own enumerable string-keyed properties in insertion order, together
  with the slot of the one symbol-keyed property the host ever reads, \<open>BuilderSymbol\<close>
  (\<open>None\<close>: the object has no such property). The keys the host reads from these
  values are fixed names that no prototype provides, or are checked with
  \<open>hasOwnProperty\<close> first, so a read finds own properties only; the one read by a key
  the caller chooses, that of a configuration, is modelled with what the object
  inherits. The index properties of arrays are not part of the model; numbers are only
  carried, never computed with, and are integers here.
\<close>

datatype objkind = PlainObject | FunctionObject

datatype jsval =
    VUndefined
  | VNull
  | VBool bool
  | VNum int
  | VStr string
  | VArr "jsval list"
  | VObj objkind "(string \<times> jsval) list" "jsval option"

type_synonym jsobject = "(string \<times> jsval) list"

datatype jstype = TUndefined | TObject | TBoolean | TNumber | TString | TFunction

text \<open>The \<open>typeof\<close> operator; \<open>typeof null\<close> is \<open>'object'\<close>, as is the type of an array.\<close>

fun typeof :: "jsval \<Rightarrow> jstype" where
  "typeof VUndefined = TUndefined"
| "typeof VNull = TObject"
| "typeof (VBool b) = TBoolean"
| "typeof (VNum n) = TNumber"
| "typeof (VStr s) = TString"
| "typeof (VArr xs) = TObject"
| "typeof (VObj PlainObject ps tag) = TObject"
| "typeof (VObj FunctionObject ps tag) = TFunction"

text \<open>\<open>v == null\<close>: true of \<open>null\<close> and \<open>undefined\<close> only.\<close>

fun nullish :: "jsval \<Rightarrow> bool" where
  "nullish VUndefined = True"
| "nullish VNull = True"
| "nullish v = False"

fun isArray :: "jsval \<Rightarrow> bool" where
  "isArray (VArr xs) = True"
| "isArray v = False"

fun truthy :: "jsval \<Rightarrow> bool" where
  "truthy VUndefined = False"
| "truthy VNull = False"
| "truthy (VBool b) = b"
| "truthy (VNum n) = (n \<noteq> 0)"
| "truthy (VStr s) = (s \<noteq> [])"
| "truthy (VArr xs) = True"
| "truthy (VObj k ps tag) = True"

text \<open>
  \<open>isJsonObject\<close> of \<open>@angular-devkit/core\<close>:
  \<open>value != null && typeof value === 'object' && !Array.isArray(value)\<close>.
\<close>

definition isJsonObject :: "jsval \<Rightarrow> bool" where
  "isJsonObject v = (\<not> nullish v \<and> typeof v = TObject \<and> \<not> isArray v)"

text \<open>
  Reading \<open>v.key\<close> where \<open>v\<close> is not nullish: an own property of an object, \<open>undefined\<close>
  otherwise. (Reading a property of \<open>null\<close> or \<open>undefined\<close> throws; the two places where
  the host can do that are written out where they occur.)
\<close>

fun get_prop :: "jsval \<Rightarrow> string \<Rightarrow> jsval" where
  "get_prop (VObj k ps tag) key = (case map_of ps key of Some v \<Rightarrow> v | None \<Rightarrow> VUndefined)"
| "get_prop v key = VUndefined"

text \<open>\<open>hasOwnProperty.call(v, key)\<close> for an object \<open>v\<close>.\<close>

fun hasOwnProperty :: "jsval \<Rightarrow> string \<Rightarrow> bool" where
  "hasOwnProperty (VObj k ps tag) key = (map_of ps key \<noteq> None)"
| "hasOwnProperty v key = False"

text \<open>\<open>BuilderSymbol in v\<close> and \<open>v[BuilderSymbol]\<close>, for \<open>v\<close> not nullish.\<close>

fun has_builder_symbol :: "jsval \<Rightarrow> bool" where
  "has_builder_symbol (VObj k ps tag) = (tag \<noteq> None)"
| "has_builder_symbol v = False"

fun builder_symbol :: "jsval \<Rightarrow> jsval" where
  "builder_symbol (VObj k ps (Some t)) = t"
| "builder_symbol v = VUndefined"

fun str_of :: "jsval \<Rightarrow> string" where
  "str_of (VStr s) = s"
| "str_of v = []"

text \<open>An object literal \<open>{k1: v1, ...}\<close>.\<close>

definition obj :: "jsobject \<Rightarrow> jsval" where
  "obj ps = VObj PlainObject ps None"

text \<open>
  The own property keys of an object are listed with the array indices first, in
  ascending order, and the other strings after them, in the order they were added. An
  array index is the canonical decimal form of a number below \<open>2^32 - 1\<close>: \<open>0\<close>, or digits
  that do not start with \<open>0\<close>. Property lists are kept in that order.
\<close>

definition digit_value :: "char \<Rightarrow> int" where
  "digit_value c = int (length (takeWhile (\<lambda>d. d \<noteq> c) ''0123456789''))"

definition array_index :: "string \<Rightarrow> int option" where
  "array_index s =
     (if s = [] then None
      else if list_ex (\<lambda>c. c \<notin> set ''0123456789'') s then None
      else if hd s = CHR ''0'' \<and> s \<noteq> ''0'' then None
      else if foldl (\<lambda>n c. 10 * n + digit_value c) 0 s < 4294967295
        then Some (foldl (\<lambda>n c. 10 * n + digit_value c) 0 s)
      else None)"

text \<open>
  \<open>target[key] = value\<close> on the property list of an ordinary object: the value of an
  existing key is replaced where it stands; a new array index goes among the array
  indices, any other new key goes last.
\<close>

fun replace_prop :: "jsobject \<Rightarrow> string \<Rightarrow> jsval \<Rightarrow> jsobject" where
  "replace_prop [] key v = []"
| "replace_prop ((k, w) # ps) key v =
     (if k = key then (k, v) # ps else (k, w) # replace_prop ps key v)"

fun insert_index :: "jsobject \<Rightarrow> int \<Rightarrow> string \<Rightarrow> jsval \<Rightarrow> jsobject" where
  "insert_index [] n key v = [(key, v)]"
| "insert_index ((k, w) # ps) n key v =
     (case array_index k of
        Some m \<Rightarrow> (if m < n then (k, w) # insert_index ps n key v else (key, v) # (k, w) # ps)
      | None \<Rightarrow> (key, v) # (k, w) # ps)"

definition set_prop :: "jsobject \<Rightarrow> string \<Rightarrow> jsval \<Rightarrow> jsobject" where
  "set_prop ps key v =
     (if map_of ps key \<noteq> None then replace_prop ps key v
      else (case array_index key of
              Some n \<Rightarrow> insert_index ps n key v
            | None \<Rightarrow> ps @ [(key, v)]))"

text \<open>
  \<open>Object.assign(target, source)\<close> performs \<open>target[key] = value\<close> for each own property
  of the source, in the order of its keys; the values are copied as they are, not
  merged. The targets of the host are objects made by \<open>{}\<close>: on them an assignment to
  \<open>__proto__\<close> runs the setter inherited from \<open>Object.prototype\<close>, which changes the
  prototype of the target and none of its own properties.
\<close>

fun object_assign :: "jsobject \<Rightarrow> jsobject \<Rightarrow> jsobject" where
  "object_assign tgt [] = tgt"
| "object_assign tgt ((k, v) # src) =
     object_assign (if k = ''__proto__'' then tgt else set_prop tgt k v) src"

section \<open>Strings\<close>

text \<open>
  \<open>s.split(c)\<close> for a one-character separator: every separator ends a piece, so the
  result is never empty and \<open>''.split(c)\<close> is \<open>['']\<close>. \<open>s.split(c, limit)\<close> computes the
  same pieces and keeps the first \<open>limit\<close> of them; the rest is dropped, not joined
  back onto the last piece.
\<close>

fun split_on :: "char \<Rightarrow> string \<Rightarrow> string list" where
  "split_on c [] = [[]]"
| "split_on c (x # xs) =
     (if x = c then [] # split_on c xs
      else (case split_on c xs of [] \<Rightarrow> [[x]] | p # ps \<Rightarrow> (x # p) # ps))"

definition split_limit :: "char \<Rightarrow> nat \<Rightarrow> string \<Rightarrow> string list" where
  "split_limit c limit s = take limit (split_on c s)"

text \<open>\<open>s.indexOf(c)\<close> where \<open>c\<close> occurs in \<open>s\<close>, and \<open>s.includes(c)\<close>.\<close>

definition indexOf :: "char \<Rightarrow> string \<Rightarrow> nat" where
  "indexOf c s = length (takeWhile (\<lambda>x. x \<noteq> c) s)"

definition str_includes :: "string \<Rightarrow> char \<Rightarrow> bool" where
  "str_includes s c = (c \<in> set s)"

definition dq :: string where
  "dq = [CHR 0x22]"

text \<open>\<open>"${s}"\<close> inside a template string.\<close>

definition quoted :: "string \<Rightarrow> string" where
  "quoted s = dq @ s @ dq"

text \<open>A \<open>string | null\<close> interpolated into a template string.\<close>

fun render_nullable :: "string option \<Rightarrow> string" where
  "render_nullable None = ''null''"
| "render_nullable (Some s) = s"

section \<open>Errors\<close>

text \<open>
  The five error classes of the host, each with its message, and the \<open>TypeError\<close> the
  runtime itself throws.
\<close>

datatype error =
    UnknownBuilderError string
  | UnknownConfigurationError string
  | InvalidBuilderSpecifiedError string
  | InvalidBuilderError string
  | UnknownTargetError string
  | TypeError string

section \<open>The environment of the host\<close>

text \<open>
  What the host reads from the outside, as parameters: module resolution
  (\<open>createRequire(from).resolve(request)\<close>, \<open>None\<close> when it throws), loading by
  \<open>require(path)\<close> (\<open>None\<close> when it throws), loading by \<open>import(path)\<close> (\<open>Inl\<close> the text of
  the rejection, \<open>Inr\<close> the module namespace object) and the three functions of Node's
  \<open>path\<close> module that the host calls.
\<close>

record node_env =
  require_resolve :: "string \<Rightarrow> string \<Rightarrow> string option"
  require_load :: "string \<Rightarrow> jsval option"
  import_load :: "string \<Rightarrow> string + jsval"
  path_join :: "string \<Rightarrow> string \<Rightarrow> string"
  path_dirname :: "string \<Rightarrow> string"
  path_basename :: "string \<Rightarrow> string"

text \<open>
  The workspace (\<open>CliWorkspace\<close> of \<open>../command/context\<close>, with the project and target
  definitions of \<open>@snuggery/core\<close>): the fields the host reads. \<open>projects\<close> and \<open>targets\<close>
  are maps read with \<open>get\<close>; \<open>configurations\<close> is an object of option objects, given here
  by its own properties.
\<close>

record target_definition =
  builder :: string
  options :: "jsobject option"
  configurations :: "(string \<rightharpoonup> jsobject) option"

record project_definition =
  root :: string
  sourceRoot :: "string option"
  prefix :: "string option"
  extensions :: jsobject
  targets :: "string \<rightharpoonup> target_definition"

record cli_workspace =
  basePath :: string
  projects :: "string \<rightharpoonup> project_definition"

text \<open>The constructor arguments of \<open>SnuggeryArchitectHost\<close>.\<close>

record host =
  startCwd :: string
  workspace :: "cli_workspace option"

text \<open>\<open>Target\<close> of \<open>@angular-devkit/architect\<close>.\<close>

record target =
  project :: string
  target :: string
  configuration :: "string option"

record builder_info =
  packageName :: "string option"
  builderName :: string
  description :: "string option"
  optionSchema :: jsval
  implementationPath :: string
  implementationExport :: "string option"
  isNx :: "bool option"

text \<open>
  What \<open>loadBuilder\<close> returns: the implementation itself, or the value of the call
  \<open>makeExecutorIntoBuilder(implementation, workspace)\<close>
  (\<open>workspace.convertExecutorIntoBuilder(implementation)\<close> in \<open>host.ts\<close>). The adapter is
  not part of the host, so its result is kept as the call.
\<close>

datatype runnable = Unchanged jsval | ExecutorIntoBuilder jsval

text \<open>
  \<open>new Set([startCwd, basePath])\<close>, or \<open>new Set([startCwd])\<close> without a workspace: the
  base directories in order, a repeated one dropped.
\<close>

fun uniq :: "string list \<Rightarrow> string list" where
  "uniq [] = []"
| "uniq (x # xs) = x # uniq (filter (\<lambda>y. y \<noteq> x) xs)"

definition basePaths :: "host \<Rightarrow> string list" where
  "basePaths h =
     uniq (case workspace h of Some w \<Rightarrow> [startCwd h, basePath w] | None \<Rightarrow> [startCwd h])"

section \<open>Loading a package's builder configuration\<close>

text \<open>
  Lines 99 to 108 of \<open>loadBuilderJson\<close>: the package's \<open>package.json\<close> first, the bare
  package name second, resolved from one base directory.
\<close>

definition resolve_start :: "node_env \<Rightarrow> string \<Rightarrow> string \<Rightarrow> string option" where
  "resolve_start env base pkg =
     (case require_resolve env (path_join env base ''<synthetic>'') (path_join env pkg ''package.json'') of
        Some p \<Rightarrow> Some p
      | None \<Rightarrow> require_resolve env (path_join env base ''<synthetic>'') pkg)"

definition failed_to_load :: "string \<Rightarrow> error" where
  "failed_to_load path =
     InvalidBuilderError (''Failed to load builder configuration file '' @ quoted path)"

text \<open>
  The \<open>while\<close> loop of \<open>loadBuilderJson\<close>: as long as the \<open>builders\<close> field of the document
  is a string, the document it points to is loaded in its place. Nothing bounds the
  number of hops, so the loop need not end: \<open>None\<close> is the run that never returns.
  A document that is \<open>null\<close> or \<open>undefined\<close> has no field to read, and the read throws.
\<close>

partial_function (option) followBuilders ::
  "node_env \<Rightarrow> string \<Rightarrow> jsval \<Rightarrow> (error + string \<times> jsval) option" where
  "followBuilders env buildersJsonPath buildersJson =
     (if nullish buildersJson then Some (Inl (TypeError ''buildersJson.builders''))
      else if typeof (get_prop buildersJson ''builders'') = TString then
        (case require_load env
                (path_join env (path_dirname env buildersJsonPath)
                   (str_of (get_prop buildersJson ''builders''))) of
           None \<Rightarrow>
             Some (Inl (failed_to_load
               (path_join env (path_dirname env buildersJsonPath)
                  (str_of (get_prop buildersJson ''builders'')))))
         | Some nextJson \<Rightarrow>
             followBuilders env
               (path_join env (path_dirname env buildersJsonPath)
                  (str_of (get_prop buildersJson ''builders'')))
               nextJson)
      else Some (Inr (buildersJsonPath, buildersJson)))"

declare followBuilders.simps [code]

text \<open>Lines 136 to 157: the checks on the last document of the chain, and the result.\<close>

definition checkBuilders ::
  "string \<Rightarrow> string \<Rightarrow> string \<Rightarrow> jsval \<Rightarrow> error + string \<times> jsval \<times> jsval option" where
  "checkBuilders pkg spec buildersJsonPath buildersJson =
     (if nullish (get_prop buildersJson ''builders'') then
        Inl (InvalidBuilderError
          (''No builder configuration found in '' @ quoted pkg @ '' for builder '' @ quoted spec))
      else if \<not> isJsonObject (get_prop buildersJson ''builders'') then
        Inl (InvalidBuilderError
          (''Builder configuration file '' @ quoted buildersJsonPath @ '' for '' @ quoted spec
             @ '' doesn't match the schema''))
      else
        Inr (buildersJsonPath, get_prop buildersJson ''builders'',
             if isJsonObject (get_prop buildersJson ''executors'')
             then Some (get_prop buildersJson ''executors'') else None))"

text \<open>Lines 110 to 157: what happens in the base directory that resolved the package.\<close>

definition loadManifest ::
  "node_env \<Rightarrow> string \<Rightarrow> string \<Rightarrow> string \<Rightarrow> (error + string \<times> jsval \<times> jsval option) option" where
  "loadManifest env startJsonPath pkg spec =
     (case require_load env startJsonPath of
        None \<Rightarrow> Some (Inl (failed_to_load startJsonPath))
      | Some startJson \<Rightarrow>
          (case followBuilders env startJsonPath startJson of
             None \<Rightarrow> None
           | Some (Inl e) \<Rightarrow> Some (Inl e)
           | Some (Inr (buildersJsonPath, buildersJson)) \<Rightarrow>
               Some (checkBuilders pkg spec buildersJsonPath buildersJson)))"

text \<open>
  The \<open>for\<close> loop over the base directories: a directory that does not resolve the package
  is skipped, the first one that does decides the call, and the error after the loop is
  reached when none did.
\<close>

fun loadBuilderJson_in ::
  "node_env \<Rightarrow> string list \<Rightarrow> string \<Rightarrow> string \<Rightarrow> (error + string \<times> jsval \<times> jsval option) option" where
  "loadBuilderJson_in env [] pkg spec =
     Some (Inl (UnknownBuilderError
       (''Couldn't find builder configuration in '' @ quoted pkg @ '' for builder '' @ quoted spec)))"
| "loadBuilderJson_in env (base # bases) pkg spec =
     (case resolve_start env base pkg of
        None \<Rightarrow> loadBuilderJson_in env bases pkg spec
      | Some startJsonPath \<Rightarrow> loadManifest env startJsonPath pkg spec)"

text \<open>
  The start document the loop settles on: the one found from the first base directory
  that resolves the package, if any does.
\<close>

fun firstResolved :: "node_env \<Rightarrow> string list \<Rightarrow> string \<Rightarrow> string option" where
  "firstResolved env [] pkg = None"
| "firstResolved env (base # bases) pkg =
     (case resolve_start env base pkg of
        None \<Rightarrow> firstResolved env bases pkg
      | Some startJsonPath \<Rightarrow> Some startJsonPath)"

definition loadBuilderJson ::
  "node_env \<Rightarrow> host \<Rightarrow> string \<Rightarrow> string \<Rightarrow> (error + string \<times> jsval \<times> jsval option) option" where
  "loadBuilderJson env h pkg spec = loadBuilderJson_in env (basePaths h) pkg spec"

section \<open>Projects, targets and options\<close>

definition getProject :: "host \<Rightarrow> string \<Rightarrow> error + project_definition" where
  "getProject h projectName =
     (case (case workspace h of None \<Rightarrow> None | Some w \<Rightarrow> projects w projectName) of
        None \<Rightarrow> Inl (UnknownTargetError (''Unknown project: '' @ quoted projectName))
      | Some p \<Rightarrow> Inr p)"

definition getTarget :: "host \<Rightarrow> target \<Rightarrow> error + target_definition" where
  "getTarget h t =
     (case getProject h (project t) of
        Inl e \<Rightarrow> Inl e
      | Inr p \<Rightarrow>
          (case targets p (target t) of
             None \<Rightarrow>
               Inl (UnknownTargetError
                 (''No target named '' @ quoted (target t) @ '' found in project ''
                    @ quoted (project t)))
           | Some d \<Rightarrow> Inr d))"

definition getBuilderNameForTarget :: "host \<Rightarrow> target \<Rightarrow> error + string" where
  "getBuilderNameForTarget h t =
     (case getTarget h t of Inl e \<Rightarrow> Inl e | Inr d \<Rightarrow> Inr (builder d))"

text \<open>
  \<open>configurations\<close> is an ordinary object, and a read by key finds what it inherits from
  \<open>Object.prototype\<close> as well as what it holds itself. These are the names
  \<open>Object.prototype\<close> provides.
\<close>

definition object_prototype_keys :: "string list" where
  "object_prototype_keys =
     [''constructor'', ''__defineGetter__'', ''__defineSetter__'', ''hasOwnProperty'',
      ''__lookupGetter__'', ''__lookupSetter__'', ''isPrototypeOf'', ''propertyIsEnumerable'',
      ''toString'', ''valueOf'', ''__proto__'', ''toLocaleString'']"

text \<open>
  \<open>targetDefinition.configurations?.[configuration]\<close>, as the loop uses it: \<open>None\<close> when the
  value read is \<open>null\<close> or \<open>undefined\<close>, and otherwise the own enumerable properties of
  the value, which are what \<open>Object.assign\<close> copies from it. An own property is a
  configuration. An inherited one is a function, or \<open>Object.prototype\<close> itself for
  \<open>__proto__\<close>: not \<open>null\<close>, and without an enumerable property of its own.
\<close>

definition configurationOptions :: "target_definition \<Rightarrow> string \<Rightarrow> jsobject option" where
  "configurationOptions d c =
     (case configurations d of
        None \<Rightarrow> None
      | Some m \<Rightarrow>
          (case m c of
             Some co \<Rightarrow> Some co
           | None \<Rightarrow> if c \<in> set object_prototype_keys then Some [] else None))"

definition unknown_configuration :: "target \<Rightarrow> string \<Rightarrow> error" where
  "unknown_configuration t c =
     UnknownConfigurationError
       (''Target '' @ quoted (target t) @ '' in project '' @ quoted (project t)
          @ '' doesn't have a configuration named '' @ quoted c)"

text \<open>The \<open>for\<close> loop of \<open>getOptionsForTarget\<close> over the configuration names.\<close>

fun assignConfigurations ::
  "target \<Rightarrow> target_definition \<Rightarrow> string list \<Rightarrow> jsobject \<Rightarrow> error + jsobject" where
  "assignConfigurations t d [] acc = Inr acc"
| "assignConfigurations t d (c # cs) acc =
     (case configurationOptions d c of
        None \<Rightarrow> Inl (unknown_configuration t c)
      | Some co \<Rightarrow> assignConfigurations t d cs (object_assign acc co))"

text \<open>\<open>target.configuration?.split(',') || []\<close>.\<close>

definition configurationNames :: "target \<Rightarrow> string list" where
  "configurationNames t =
     (case configuration t of None \<Rightarrow> [] | Some c \<Rightarrow> split_on (CHR '','') c)"

definition getOptionsForTarget :: "host \<Rightarrow> target \<Rightarrow> error + jsobject" where
  "getOptionsForTarget h t =
     (case getTarget h t of
        Inl e \<Rightarrow> Inl e
      | Inr d \<Rightarrow>
          assignConfigurations t d (configurationNames t)
            (case options d of None \<Rightarrow> [] | Some base \<Rightarrow> object_assign [] base))"

section \<open>Resolving a builder\<close>

text \<open>
  \<open>isBuilder(value)\<close>, used as a condition: \<open>BuilderSymbol in value && value[BuilderSymbol]\<close>.
  The \<open>in\<close> operator throws a \<open>TypeError\<close> when its right operand is not an object.
\<close>

definition isBuilder :: "jsval \<Rightarrow> error + bool" where
  "isBuilder v =
     (if typeof v \<noteq> TFunction \<and> (typeof v \<noteq> TObject \<or> nullish v) then
        Inl (TypeError ''BuilderSymbol in value'')
      else Inr (has_builder_symbol v \<and> truthy (builder_symbol v)))"

text \<open>\<open>module.default ?? module\<close>.\<close>

definition default_or_module :: "jsval \<Rightarrow> jsval" where
  "default_or_module m = (if nullish (get_prop m ''default'') then m else get_prop m ''default'')"

text \<open>
  Lines 210 to 252 of \<open>resolveBuilderFromPath\<close>: the module at the resolved path is
  imported, and its value becomes the builder's entry in one of three ways.
\<close>

definition directBuilderInfo :: "node_env \<Rightarrow> string \<Rightarrow> string \<Rightarrow> error + string \<times> jsval" where
  "directBuilderInfo env path resolvedPath =
     (case import_load env resolvedPath of
        Inl msg \<Rightarrow>
          Inl (InvalidBuilderError
            (''Failed to load builder file '' @ quoted resolvedPath @ '' for builder ''
               @ quoted path))
      | Inr m \<Rightarrow>
          (if nullish (default_or_module m) \<or> typeof (default_or_module m) \<noteq> TObject
              \<or> isArray (default_or_module m) then
             Inl (InvalidBuilderError
               (''File '' @ quoted resolvedPath @ '' for builder '' @ quoted path
                  @ '' does not contain a valid builder''))
           else
             (case isBuilder (default_or_module m) of
                Inl e \<Rightarrow> Inl e
              | Inr True \<Rightarrow>
                  Inr (resolvedPath,
                       obj [(''schema'', VBool True),
                            (''implementation'', VStr (path_basename env resolvedPath))])
              | Inr False \<Rightarrow>
                  (if typeof (get_prop (default_or_module m) ''type'') = TString
                      \<and> typeof (get_prop (default_or_module m) ''implementation'') = TString then
                     Inr (resolvedPath,
                          obj [(''schema'', VStr (path_basename env resolvedPath)),
                               (''implementation'',
                                get_prop (default_or_module m) ''implementation'')])
                   else Inr (resolvedPath, default_or_module m)))))"

fun resolveBuilderFromPath_in ::
  "node_env \<Rightarrow> string list \<Rightarrow> string \<Rightarrow> error + string \<times> jsval" where
  "resolveBuilderFromPath_in env [] path =
     Inl (UnknownBuilderError (''Can't resolve builder '' @ quoted path))"
| "resolveBuilderFromPath_in env (base # bases) path =
     (case require_resolve env (path_join env base ''<synthetic>'') path of
        None \<Rightarrow> resolveBuilderFromPath_in env bases path
      | Some resolvedPath \<Rightarrow> directBuilderInfo env path resolvedPath)"

definition resolveBuilderFromPath :: "node_env \<Rightarrow> host \<Rightarrow> string \<Rightarrow> error + string \<times> jsval" where
  "resolveBuilderFromPath env h path = resolveBuilderFromPath_in env (basePaths h) path"

text \<open>
  \<open>const [packageName, builderName] = builderSpec.split(':', 2)\<close>: the first piece, and
  the second piece or \<open>undefined\<close>.
\<close>

definition split_spec :: "string \<Rightarrow> string \<times> string option" where
  "split_spec builderSpec =
     (case split_limit (CHR '':'') 2 builderSpec of
        [] \<Rightarrow> ([], None)
      | [p] \<Rightarrow> (p, None)
      | p # n # rest \<Rightarrow> (p, Some n))"

text \<open>
  Lines 311 to 326 of \<open>resolveBuilder\<close>: the entry of the name, looked up in the
  \<open>executors\<close> of the package first and in its \<open>builders\<close> second.
\<close>

definition selectBuilderInfo ::
  "jsval \<Rightarrow> jsval option \<Rightarrow> string \<Rightarrow> string \<Rightarrow> error + jsval \<times> bool option" where
  "selectBuilderInfo builderJson executorsJson pkg name =
     (if executorsJson \<noteq> None \<and> hasOwnProperty (the executorsJson) name then
        Inr (get_prop (the executorsJson) name, Some True)
      else if hasOwnProperty builderJson name then
        Inr (get_prop builderJson name, if executorsJson \<noteq> None then Some False else None)
      else
        Inl (UnknownBuilderError (''Can't find '' @ quoted name @ '' in '' @ quoted pkg)))"

text \<open>Lines 342 to 360: the option schema of a valid entry.\<close>

definition loadSchema ::
  "node_env \<Rightarrow> string \<Rightarrow> string \<Rightarrow> string \<Rightarrow> jsval \<Rightarrow> error + jsval" where
  "loadSchema env pkg name builderPath builderInfo =
     (if typeof (get_prop builderInfo ''schema'') = TBoolean then
        Inr (get_prop builderInfo ''schema'')
      else
        (case require_load env
                (path_join env (path_dirname env builderPath)
                   (str_of (get_prop builderInfo ''schema''))) of
           None \<Rightarrow>
             Inl (InvalidBuilderError
               (''Couldn't load schema ''
                  @ quoted (path_join env (path_dirname env builderPath)
                      (str_of (get_prop builderInfo ''schema'')))
                  @ '' for builder '' @ quoted name @ '' in package '' @ quoted pkg))
         | Some optionSchema' \<Rightarrow>
             (if \<not> isJsonObject optionSchema' then
                Inl (InvalidBuilderError
                  (''Invalid schema at ''
                     @ quoted (path_join env (path_dirname env builderPath)
                         (str_of (get_prop builderInfo ''schema'')))
                     @ '' for builder '' @ quoted name @ '' in package '' @ quoted pkg))
              else Inr optionSchema')))"

text \<open>
  Lines 329 to 386 of \<open>resolveBuilder\<close> (220 to 277 of \<open>host.ts\<close>, the same text): the
  entry is validated, its schema loaded, its \<open>implementation\<close> cut at the first \<open>#\<close>, and
  the descriptor built.
\<close>

definition describeBuilder ::
  "node_env \<Rightarrow> string \<Rightarrow> string \<Rightarrow> string \<Rightarrow> jsval \<Rightarrow> bool option \<Rightarrow> error + builder_info" where
  "describeBuilder env pkg name builderPath builderInfo nx =
     (if \<not> isJsonObject builderInfo
         \<or> typeof (get_prop builderInfo ''implementation'') \<noteq> TString
         \<or> (typeof (get_prop builderInfo ''schema'') \<noteq> TString
              \<and> typeof (get_prop builderInfo ''schema'') \<noteq> TBoolean) then
        Inl (InvalidBuilderError
          (if pkg \<noteq> ''$direct''
           then ''Invalid configuration for builder '' @ quoted name @ '' in package '' @ quoted pkg
           else ''Invalid configuration for builder '' @ quoted name))
      else
        (case loadSchema env pkg name builderPath builderInfo of
           Inl e \<Rightarrow> Inl e
         | Inr schema \<Rightarrow>
             (let impl = str_of (get_prop builderInfo ''implementation'') in
              Inr \<lparr> packageName = Some pkg,
                    builderName = name,
                    description =
                      (if typeof (get_prop builderInfo ''description'') = TString
                       then Some (str_of (get_prop builderInfo ''description'')) else None),
                    optionSchema = schema,
                    implementationPath =
                      path_join env (path_dirname env builderPath)
                        (if str_includes impl (CHR ''#'')
                         then take (indexOf (CHR ''#'') impl) impl else impl),
                    implementationExport =
                      (if str_includes impl (CHR ''#'')
                       then Some (drop (indexOf (CHR ''#'') impl + 1) impl) else None),
                    isNx = nx \<rparr>)))"

definition no_collection :: error where
  "no_collection =
     InvalidBuilderSpecifiedError
       ''Builders must list a collection, use $direct as collection if you want to use a builder directly''"

text \<open>
  \<open>resolveBuilder\<close> of the host that resolves packages itself. \<open>None\<close> is the call that
  never returns, which only the loop over a package's manifests can cause.
\<close>

definition resolveBuilder :: "node_env \<Rightarrow> host \<Rightarrow> string \<Rightarrow> (error + builder_info) option" where
  "resolveBuilder env h builderSpec =
     (case split_spec builderSpec of
        (pkg, None) \<Rightarrow> Some (Inl no_collection)
      | (pkg, Some name) \<Rightarrow>
          (if pkg = ''$direct'' then
             (case resolveBuilderFromPath env h name of
                Inl e \<Rightarrow> Some (Inl e)
              | Inr (builderPath, builderInfo) \<Rightarrow>
                  Some (describeBuilder env pkg name builderPath builderInfo None))
           else
             (case loadBuilderJson env h pkg builderSpec of
                None \<Rightarrow> None
              | Some (Inl e) \<Rightarrow> Some (Inl e)
              | Some (Inr (builderPath, builderJson, executorsJson)) \<Rightarrow>
                  (case selectBuilderInfo builderJson executorsJson pkg name of
                     Inl e \<Rightarrow> Some (Inl e)
                   | Inr (builderInfo, nx) \<Rightarrow>
                       Some (describeBuilder env pkg name builderPath builderInfo nx)))))"

text \<open>
  \<open>resolveBuilder\<close> of \<open>host.ts\<close>, where the package and the direct path are resolved by a
  \<open>ResolverFacade\<close> handed to the host. The facade is an interface; its two methods that
  the function calls are parameters.
\<close>

record resolver_facade =
  facade_resolveBuilder ::
    "string \<Rightarrow> string \<Rightarrow> string \<Rightarrow> error + string \<times> jsval \<times> bool option"
  facade_resolveDirectBuilder :: "string \<Rightarrow> error + string \<times> jsval"

definition host_resolveBuilder ::
  "node_env \<Rightarrow> resolver_facade \<Rightarrow> string \<Rightarrow> error + builder_info" where
  "host_resolveBuilder env resolver builderSpec =
     (case split_spec builderSpec of
        (pkg, None) \<Rightarrow> Inl no_collection
      | (pkg, Some name) \<Rightarrow>
          (if pkg = ''$direct'' then
             (case facade_resolveDirectBuilder resolver name of
                Inl e \<Rightarrow> Inl e
              | Inr (builderPath, builderInfo) \<Rightarrow>
                  describeBuilder env pkg name builderPath builderInfo None)
           else
             (case facade_resolveBuilder resolver pkg name builderSpec of
                Inl e \<Rightarrow> Inl e
              | Inr (builderPath, builderInfo, nx) \<Rightarrow>
                  describeBuilder env pkg name builderPath builderInfo nx)))"

section \<open>Loading a builder\<close>

text \<open>
  The callback given to \<open>then\<close>: the named export, or the default export with the module
  itself in its place when there is none.
\<close>

definition selectExport :: "builder_info \<Rightarrow> jsval \<Rightarrow> jsval" where
  "selectExport info m =
     (case implementationExport info of
        Some e \<Rightarrow> get_prop m e
      | None \<Rightarrow> default_or_module m)"

text \<open>Lines 391 to 410 of \<open>loadBuilder\<close> (283 to 302 of \<open>host.ts\<close>).\<close>

definition loadImplementation :: "node_env \<Rightarrow> builder_info \<Rightarrow> error + jsval" where
  "loadImplementation env info =
     (case import_load env (implementationPath info) of
        Inl msg \<Rightarrow>
          Inl (InvalidBuilderError
            (''Failed to load implementation for builder '' @ quoted (builderName info)
               @ '' in package '' @ quoted (render_nullable (packageName info)) @ '': '' @ msg))
      | Inr m \<Rightarrow>
          (if nullish (selectExport info m) then
             Inl (InvalidBuilderError
               (''Failed to load implementation for builder '' @ quoted (builderName info)
                  @ '' in package '' @ render_nullable (packageName info)))
           else Inr (selectExport info m)))"

text \<open>
  The condition of lines 412 to 417: \<open>info.isNx\<close>, or \<open>info.isNx !== false\<close> with a schema
  of type \<open>'object'\<close> whose \<open>cli\<close> is \<open>'nx'\<close>. The operands are evaluated left to right, so a
  schema that is \<open>null\<close> (also of type \<open>'object'\<close>) makes the read of \<open>cli\<close> throw.
\<close>

definition usesAdapter :: "builder_info \<Rightarrow> error + bool" where
  "usesAdapter info =
     (if isNx info = Some True then Inr True
      else if isNx info \<noteq> Some False \<and> typeof (optionSchema info) = TObject then
        (if nullish (optionSchema info) then Inl (TypeError ''info.optionSchema.cli'')
         else Inr (get_prop (optionSchema info) ''cli'' = VStr ''nx''))
      else Inr False)"

definition not_a_builder :: "builder_info \<Rightarrow> error" where
  "not_a_builder info =
     InvalidBuilderError
       (''Implementation for builder '' @ quoted (builderName info) @ '' in package ''
          @ quoted (render_nullable (packageName info)) @ '' is not a builder'')"

text \<open>
  \<open>loadBuilder\<close> of the host that resolves packages itself; the last check reads
  \<open>implementation[BuilderSymbol]\<close>, which is \<open>undefined\<close> on a value without the property.
\<close>

definition loadBuilder :: "node_env \<Rightarrow> builder_info \<Rightarrow> error + runnable" where
  "loadBuilder env info =
     (case loadImplementation env info of
        Inl e \<Rightarrow> Inl e
      | Inr implementation \<Rightarrow>
          (case usesAdapter info of
             Inl e \<Rightarrow> Inl e
           | Inr True \<Rightarrow> Inr (ExecutorIntoBuilder implementation)
           | Inr False \<Rightarrow>
               (if \<not> truthy (builder_symbol implementation) then Inl (not_a_builder info)
                else Inr (Unchanged implementation))))"

text \<open>\<open>loadBuilder\<close> of \<open>host.ts\<close>; the last check calls \<open>isBuilder\<close>.\<close>

definition host_loadBuilder :: "node_env \<Rightarrow> builder_info \<Rightarrow> error + runnable" where
  "host_loadBuilder env info =
     (case loadImplementation env info of
        Inl e \<Rightarrow> Inl e
      | Inr implementation \<Rightarrow>
          (case usesAdapter info of
             Inl e \<Rightarrow> Inl e
           | Inr True \<Rightarrow> Inr (ExecutorIntoBuilder implementation)
           | Inr False \<Rightarrow>
               (case isBuilder implementation of
                  Inl e \<Rightarrow> Inl e
                | Inr False \<Rightarrow> Inl (not_a_builder info)
                | Inr True \<Rightarrow> Inr (Unchanged implementation))))"

section \<open>A sample workspace\<close>

text \<open>
  A small installation used to run the host on concrete inputs: the workspace \<open>/ws\<close> with
  the packages \<open>pkg\<close> (whose \<open>package.json\<close> points to a \<open>builders.json\<close> that lists \<open>foo\<close>
  both as a builder and as an executor), \<open>bad\<close> (whose \<open>package.json\<close> has no \<open>builders\<close>),
  \<open>void\<close> (whose \<open>package.json\<close> points to a \<open>builders.json\<close> that holds \<open>null\<close>) and
  \<open>colon\<close> (which lists the name \<open>a:b\<close> both as a builder and as an executor, and the name
  \<open>a\<close> as a builder only), two modules that export a builder, and the module of the
  executor. The three path functions agree with Node's on the paths used here:
  absolute, normalised directories and file names, joined with relative segments that
  start with at most one \<open>./\<close>.
\<close>

definition sample_join :: "string \<Rightarrow> string \<Rightarrow> string" where
  "sample_join a b = a @ ''/'' @ (if take 2 b = ''./'' then drop 2 b else b)"

definition sample_dirname :: "string \<Rightarrow> string" where
  "sample_dirname p = rev (tl (dropWhile (\<lambda>c. c \<noteq> CHR ''/'') (rev p)))"

definition sample_basename :: "string \<Rightarrow> string" where
  "sample_basename p = rev (takeWhile (\<lambda>c. c \<noteq> CHR ''/'') (rev p))"

definition sample_builder :: jsval where
  "sample_builder =
     VObj PlainObject [(''handler'', VObj FunctionObject [] None)] (Some (VBool True))"

definition sample_builders :: jsval where
  "sample_builders =
     obj [(''foo'', obj [(''implementation'', VStr ''./native.js''), (''schema'', VBool True)])]"

definition sample_executor_entry :: jsval where
  "sample_executor_entry =
     obj [(''implementation'', VStr ''./exec.js#run''),
          (''schema'', VStr ''./exec-schema.json''),
          (''description'', VStr ''runs foo'')]"

definition sample_executors :: jsval where
  "sample_executors = obj [(''foo'', sample_executor_entry)]"

definition sample_manifest :: jsval where
  "sample_manifest = obj [(''builders'', sample_builders), (''executors'', sample_executors)]"

definition sample_colon_builders :: jsval where
  "sample_colon_builders =
     obj [(''a'', obj [(''implementation'', VStr ''./a.js''), (''schema'', VBool True)]),
          (''a:b'', obj [(''implementation'', VStr ''./native.js''), (''schema'', VBool True)])]"

definition sample_colon_executors :: jsval where
  "sample_colon_executors =
     obj [(''a:b'', obj [(''implementation'', VStr ''./exec.js''), (''schema'', VBool True)])]"

definition sample_files :: "(string \<times> jsval) list" where
  "sample_files =
     [(''/ws/node_modules/pkg/package.json'',
       obj [(''name'', VStr ''pkg''), (''builders'', VStr ''./builders.json'')]),
      (''/ws/node_modules/pkg/builders.json'', sample_manifest),
      (''/ws/node_modules/pkg/exec-schema.json'', obj [(''cli'', VStr ''nx'')]),
      (''/ws/node_modules/bad/package.json'', obj [(''name'', VStr ''bad'')]),
      (''/ws/node_modules/void/package.json'',
       obj [(''name'', VStr ''void''), (''builders'', VStr ''./builders.json'')]),
      (''/ws/node_modules/void/builders.json'', VNull),
      (''/ws/node_modules/colon/package.json'',
       obj [(''builders'', sample_colon_builders), (''executors'', sample_colon_executors)])]"

definition sample_modules :: "(string \<times> jsval) list" where
  "sample_modules =
     [(''/ws/tools/build.js'', obj [(''default'', sample_builder)]),
      (''/ws/tools/c#-builder.js'', obj [(''default'', sample_builder)]),
      (''/ws/node_modules/pkg/exec.js'', obj [(''run'', VObj FunctionObject [] None)])]"

definition sample_resolutions :: "(string \<times> string) list" where
  "sample_resolutions =
     [(''pkg/package.json'', ''/ws/node_modules/pkg/package.json''),
      (''bad/package.json'', ''/ws/node_modules/bad/package.json''),
      (''void/package.json'', ''/ws/node_modules/void/package.json''),
      (''colon/package.json'', ''/ws/node_modules/colon/package.json''),
      (''./tools/build.js'', ''/ws/tools/build.js''),
      (''./tools/c#-builder.js'', ''/ws/tools/c#-builder.js'')]"

definition sample_env :: node_env where
  "sample_env =
     \<lparr> require_resolve =
         (\<lambda>from request. if from = ''/ws/<synthetic>'' then map_of sample_resolutions request else None),
       require_load = map_of sample_files,
       import_load =
         (\<lambda>p. case map_of sample_modules p of
                None \<Rightarrow> Inl (''Cannot find module '' @ p)
              | Some m \<Rightarrow> Inr m),
       path_join = sample_join,
       path_dirname = sample_dirname,
       path_basename = sample_basename \<rparr>"

definition sample_configurations :: "string \<rightharpoonup> jsobject" where
  "sample_configurations =
     [''c1'' \<mapsto> [(''b'', obj [(''y'', VNum 1)])], ''c2'' \<mapsto> [(''a'', VNum 2)]]"

definition sample_target_definition :: target_definition where
  "sample_target_definition =
     \<lparr> builder = ''pkg:foo'',
       options = Some [(''a'', VNum 1), (''b'', obj [(''x'', VNum 1)])],
       configurations = Some sample_configurations \<rparr>"

definition sample_host :: host where
  "sample_host =
     \<lparr> startCwd = ''/ws'',
       workspace =
         Some \<lparr> basePath = ''/ws'',
                 projects =
                   [''app'' \<mapsto>
                      \<lparr> root = ''app'', sourceRoot = None, prefix = None, extensions = [],
                        targets = [''build'' \<mapsto> sample_target_definition] \<rparr>] \<rparr> \<rparr>"


text \<open>
  Three descriptors: the one \<open>resolveBuilder\<close> returns for \<open>pkg:foo\<close>, the one it returns
  for \<open>$direct:./tools/build.js\<close>, and the latter with a schema that carries the marker
  \<open>cli: 'nx'\<close>.
\<close>

definition sample_executor_info :: builder_info where
  "sample_executor_info =
     \<lparr> packageName = Some ''pkg'', builderName = ''foo'', description = Some ''runs foo'',
       optionSchema = obj [(''cli'', VStr ''nx'')],
       implementationPath = ''/ws/node_modules/pkg/exec.js'',
       implementationExport = Some ''run'', isNx = Some True \<rparr>"

definition sample_direct_info :: builder_info where
  "sample_direct_info =
     \<lparr> packageName = Some ''$direct'', builderName = ''./tools/build.js'', description = None,
       optionSchema = VBool True, implementationPath = ''/ws/tools/build.js'',
       implementationExport = None, isNx = None \<rparr>"

definition sample_marked_info :: builder_info where
  "sample_marked_info = sample_direct_info \<lparr> optionSchema := obj [(''cli'', VStr ''nx'')] \<rparr>"

text \<open>The descriptor of the builder \<open>a\<close> of the package \<open>colon\<close>.\<close>

definition sample_colon_info :: builder_info where
  "sample_colon_info =
     \<lparr> packageName = Some ''colon'', builderName = ''a'', description = None,
       optionSchema = VBool True, implementationPath = ''/ws/node_modules/colon/a.js'',
       implementationExport = None, isNx = Some False \<rparr>"

text \<open>The marked descriptor once more, now known to be a native builder.\<close>

definition sample_native_info :: builder_info where
  "sample_native_info = sample_marked_info \<lparr> isNx := Some False \<rparr>"

text \<open>
  A resolver for the host of \<open>host.ts\<close>: it resolves a direct path as the other host
  does, and finds the executor \<open>foo\<close> in every package.
\<close>

definition sample_resolver :: resolver_facade where
  "sample_resolver =
     \<lparr> facade_resolveBuilder =
         (\<lambda>pkg name spec.
            Inr (''/ws/node_modules/pkg/builders.json'', sample_executor_entry, Some True)),
       facade_resolveDirectBuilder = resolveBuilderFromPath sample_env sample_host \<rparr>"

definition sample_target :: "string \<Rightarrow> target" where
  "sample_target cs = \<lparr> project = ''app'', target = ''build'', configuration = Some cs \<rparr>"

section \<open>Splitting strings\<close>

lemma split_on_not_Nil: "split_on c s \<noteq> []"
  by (induction s) (auto split: list.splits)

lemma split_on_no_sep: "c \<notin> set s \<Longrightarrow> split_on c s = [s]"
  by (induction s) auto

lemma split_on_sep:
  "c \<in> set s \<Longrightarrow>
   split_on c s = takeWhile (\<lambda>x. x \<noteq> c) s # split_on c (tl (dropWhile (\<lambda>x. x \<noteq> c) s))"
  by (induction s) (auto split: list.splits simp: split_on_not_Nil)

lemma hd_split_on: "hd (split_on c s) = takeWhile (\<lambda>x. x \<noteq> c) s"
proof (cases "c \<in> set s")
  case True
  then show ?thesis by (simp add: split_on_sep)
next
  case False
  have one: "split_on c s = [s]" by (rule split_on_no_sep [OF False])
  have "takeWhile (\<lambda>x. x \<noteq> c) s = s" using False by auto
  with one show ?thesis by (simp del: takeWhile_eq_all_conv)
qed

lemma split_spec_no_sep: "CHR '':'' \<notin> set s \<Longrightarrow> split_spec s = (s, None)"
  by (simp add: split_spec_def split_limit_def split_on_no_sep)

lemma split_spec_sep:
  "CHR '':'' \<in> set s \<Longrightarrow>
   split_spec s =
     (takeWhile (\<lambda>x. x \<noteq> CHR '':'') s,
      Some (takeWhile (\<lambda>x. x \<noteq> CHR '':'') (tl (dropWhile (\<lambda>x. x \<noteq> CHR '':'') s))))"
proof -
  assume a: "CHR '':'' \<in> set s"
  let ?r = "tl (dropWhile (\<lambda>x. x \<noteq> CHR '':'') s)"
  obtain q qs where q: "split_on (CHR '':'') ?r = q # qs"
    using split_on_not_Nil by (cases "split_on (CHR '':'') ?r") auto
  have "q = takeWhile (\<lambda>x. x \<noteq> CHR '':'') ?r"
    using hd_split_on [of "CHR '':''" ?r] q by simp
  then show ?thesis
    using a q by (simp add: split_spec_def split_limit_def split_on_sep)
qed

lemma fst_split_spec: "fst (split_spec s) = takeWhile (\<lambda>c. c \<noteq> CHR '':'') s"
proof (cases "CHR '':'' \<in> set s")
  case True
  then show ?thesis by (simp add: split_spec_sep)
next
  case False
  have "takeWhile (\<lambda>c. c \<noteq> CHR '':'') s = s" using False by auto
  then show ?thesis using split_spec_no_sep [OF False] by (simp del: takeWhile_eq_all_conv)
qed

lemma split_spec_joined:
  assumes "CHR '':'' \<notin> set pkg" and "CHR '':'' \<notin> set name"
  shows "split_spec (pkg @ '':'' @ name) = (pkg, Some name)"
proof -
  let ?s = "pkg @ CHR '':'' # name"
  have m: "CHR '':'' \<in> set ?s" by simp
  have p: "takeWhile (\<lambda>x. x \<noteq> CHR '':'') ?s = pkg"
    using assms(1) by (subst takeWhile_append2) auto
  have d: "dropWhile (\<lambda>x. x \<noteq> CHR '':'') ?s = CHR '':'' # name"
    using assms(1) by (subst dropWhile_append2) auto
  have n: "takeWhile (\<lambda>x. x \<noteq> CHR '':'') name = name"
    using assms(2) by auto
  have "split_spec ?s = (pkg, Some name)"
    unfolding split_spec_sep [OF m] p d using n by (simp del: takeWhile_eq_all_conv)
  then show ?thesis by simp
qed

section \<open>The fields of a resolved descriptor\<close>

lemma describeBuilder_fields:
  assumes "describeBuilder env pkg name builderPath builderInfo nx = Inr d"
  shows "packageName d = Some pkg \<and> builderName d = name \<and> isNx d = nx"
  using assms
  by (auto simp: describeBuilder_def Let_def split: if_splits sum.splits)

lemma resolveBuilder_fields:
  assumes "resolveBuilder env h builderSpec = Some (Inr d)"
  shows "\<exists>name. split_spec builderSpec = (the (packageName d), Some name)
           \<and> packageName d = Some (fst (split_spec builderSpec)) \<and> builderName d = name"
  using assms
  by (auto simp: resolveBuilder_def split: prod.splits option.splits if_splits sum.splits
           dest: describeBuilder_fields)

lemma host_resolveBuilder_fields:
  assumes "host_resolveBuilder env resolver builderSpec = Inr d"
  shows "\<exists>name. split_spec builderSpec = (the (packageName d), Some name)
           \<and> packageName d = Some (fst (split_spec builderSpec)) \<and> builderName d = name"
  using assms
  by (auto simp: host_resolveBuilder_def split: prod.splits option.splits if_splits sum.splits
           dest: describeBuilder_fields)

lemma selectBuilderInfo_executor:
  "hasOwnProperty executorsJson name \<Longrightarrow>
   selectBuilderInfo builderJson (Some executorsJson) pkg name =
     Inr (get_prop executorsJson name, Some True)"
  by (simp add: selectBuilderInfo_def)

section \<open>The errors of manifest loading\<close>

lemma followBuilders_result:
  assumes "followBuilders env p d = Some r"
  shows "\<forall>m. r \<noteq> Inl (UnknownBuilderError m)"
proof (rule followBuilders.raw_induct
         [where P = "\<lambda>e p d y. \<forall>m. y \<noteq> Inl (UnknownBuilderError m)", OF _ assms], goal_cases)
  case (1 follow env p d r)
  then show ?case
    by (auto simp: failed_to_load_def split: if_splits option.splits)
qed

lemma followBuilders_errors:
  "followBuilders env p d = Some (Inl e) \<Longrightarrow> \<forall>m. e \<noteq> UnknownBuilderError m"
  using followBuilders_result by blast

lemma checkBuilders_errors:
  "checkBuilders pkg spec p d = Inl e \<Longrightarrow> \<exists>m. e = InvalidBuilderError m"
  by (auto simp: checkBuilders_def split: if_splits)

lemma checkBuilders_invalid:
  "\<not> isJsonObject (get_prop d ''builders'') \<Longrightarrow>
   \<exists>m. checkBuilders pkg spec p d = Inl (InvalidBuilderError m)"
  by (auto simp: checkBuilders_def)

lemma loadManifest_errors:
  assumes "loadManifest env start pkg spec = Some (Inl e)"
  shows "\<forall>m. e \<noteq> UnknownBuilderError m"
  using assms
  by (auto simp: loadManifest_def failed_to_load_def
           split: option.splits sum.splits prod.splits
           dest: followBuilders_errors checkBuilders_errors)

lemma loadBuilderJson_in_first:
  "loadBuilderJson_in env bases pkg spec =
     (case firstResolved env bases pkg of
        None \<Rightarrow> Some (Inl (UnknownBuilderError
          (''Couldn't find builder configuration in '' @ quoted pkg @ '' for builder '' @ quoted spec)))
      | Some start \<Rightarrow> loadManifest env start pkg spec)"
  by (induction bases) (auto split: option.splits)

lemma firstResolved_None:
  "firstResolved env bases pkg = None \<longleftrightarrow> (\<forall>b \<in> set bases. resolve_start env b pkg = None)"
  by (induction bases) (auto split: option.splits)

text \<open>
  What \<open>loadBuilderJson\<close> does when the last document of the chain is not \<open>null\<close>: a
  \<open>builders\<close> field that is missing or not an object is an \<open>InvalidBuilderError\<close>. And an
  \<open>UnknownBuilderError\<close> means that no base directory resolved the package.
\<close>

lemma loadBuilderJson_malformed:
  "(firstResolved env (basePaths h) pkg = Some start
      \<and> require_load env start = Some startJson
      \<and> followBuilders env start startJson = Some (Inr (buildersJsonPath, buildersJson))
      \<and> \<not> isJsonObject (get_prop buildersJson ''builders'')
    \<longrightarrow> (\<exists>m. loadBuilderJson env h pkg spec = Some (Inl (InvalidBuilderError m))))
   \<and> (loadBuilderJson env h pkg spec = Some (Inl (UnknownBuilderError msg))
    \<longrightarrow> (\<forall>b \<in> set (basePaths h). resolve_start env b pkg = None))"
proof (intro conjI impI)
  assume a: "firstResolved env (basePaths h) pkg = Some start
      \<and> require_load env start = Some startJson
      \<and> followBuilders env start startJson = Some (Inr (buildersJsonPath, buildersJson))
      \<and> \<not> isJsonObject (get_prop buildersJson ''builders'')"
  then obtain m where
    "checkBuilders pkg spec buildersJsonPath buildersJson = Inl (InvalidBuilderError m)"
    using checkBuilders_invalid by blast
  with a show "\<exists>m. loadBuilderJson env h pkg spec = Some (Inl (InvalidBuilderError m))"
    by (simp add: loadBuilderJson_def loadBuilderJson_in_first loadManifest_def)
next
  assume u: "loadBuilderJson env h pkg spec = Some (Inl (UnknownBuilderError msg))"
  have "firstResolved env (basePaths h) pkg = None"
  proof (cases "firstResolved env (basePaths h) pkg")
    case None
    then show ?thesis .
  next
    case (Some start)
    with u have "loadManifest env start pkg spec = Some (Inl (UnknownBuilderError msg))"
      by (simp add: loadBuilderJson_def loadBuilderJson_in_first)
    from loadManifest_errors [OF this] show ?thesis by simp
  qed
  then show "\<forall>b \<in> set (basePaths h). resolve_start env b pkg = None"
    by (simp add: firstResolved_None)
qed

section \<open>The loop over the configurations\<close>

lemma assignConfigurations_absent:
  "find (\<lambda>x. configurationOptions d x = None) cs = Some c \<Longrightarrow>
   assignConfigurations t d cs acc = Inl (unknown_configuration t c)"
  by (induction cs arbitrary: acc) (auto split: if_splits)

text \<open>
  A name of the list whose read gives \<open>null\<close> or \<open>undefined\<close> (it is neither a property
  of \<open>configurations\<close> nor a name inherited from \<open>Object.prototype\<close>) stops the loop with
  \<open>UnknownConfigurationError\<close>; the message names the first such name.
\<close>

lemma unknown_configuration_named:
  assumes "getTarget h t = Inr d"
    and "c \<in> set (configurationNames t)"
    and "configurationOptions d c = None"
  shows "\<exists>c'. find (\<lambda>x. configurationOptions d x = None) (configurationNames t) = Some c'
           \<and> c' \<in> set (configurationNames t) \<and> configurationOptions d c' = None
           \<and> getOptionsForTarget h t =
               Inl (UnknownConfigurationError
                 (''Target '' @ quoted (target t) @ '' in project '' @ quoted (project t)
                    @ '' doesn't have a configuration named '' @ quoted c'))"
proof -
  from assms(2,3) obtain c' where
    f: "find (\<lambda>x. configurationOptions d x = None) (configurationNames t) = Some c'"
    by (cases "find (\<lambda>x. configurationOptions d x = None) (configurationNames t)")
       (auto simp: find_None_iff)
  then have "c' \<in> set (configurationNames t)" "configurationOptions d c' = None"
    by (auto simp: find_Some_iff)
  moreover have "getOptionsForTarget h t = Inl (unknown_configuration t c')"
    using assms(1) assignConfigurations_absent [OF f]
    by (simp add: getOptionsForTarget_def)
  ultimately show ?thesis using f by (simp add: unknown_configuration_def)
qed

lemma array_index_letter [simp]: "array_index ''a'' = None" "array_index ''b'' = None"
  by (simp_all add: array_index_def)

section \<open>Loading and the builder tag\<close>

lemma get_prop_nullish: "nullish s \<Longrightarrow> get_prop s k = VUndefined"
  by (cases s) simp_all


section \<open>A builder referenced directly\<close>

text \<open>
  For \<open>$direct:<path>\<close> the entry of a module that exports a builder is made up by the
  host: \<open>{schema: true, implementation: basename(resolvedPath)}\<close>. \<open>resolveBuilder\<close> then
  treats it like an entry read from a manifest. When the file name has no \<open>#\<close>, and
  joining the directory and the file name of the resolved path gives the path back (as
  it does for the absolute paths Node resolves to), the descriptor points at the module
  itself.
\<close>

lemma resolveBuilderFromPath_in_skip:
  assumes "\<forall>x \<in> set pre. require_resolve env (path_join env x ''<synthetic>'') path = None"
    and "require_resolve env (path_join env b ''<synthetic>'') path = Some resolvedPath"
  shows "resolveBuilderFromPath_in env (pre @ b # post) path = directBuilderInfo env path resolvedPath"
  using assms by (induction pre) simp_all

lemma directBuilderInfo_builder:
  assumes "import_load env resolvedPath = Inr m"
    and "typeof (default_or_module m) = TObject"
    and "isBuilder (default_or_module m) = Inr True"
  shows "directBuilderInfo env path resolvedPath =
           Inr (resolvedPath,
                obj [(''schema'', VBool True),
                     (''implementation'', VStr (path_basename env resolvedPath))])"
proof -
  have "\<not> isArray (default_or_module m)" "\<not> nullish (default_or_module m)"
    using assms(3) by (cases "default_or_module m"; simp add: isBuilder_def)+
  then show ?thesis using assms by (simp add: directBuilderInfo_def)
qed

lemma describeBuilder_direct:
  assumes "CHR ''#'' \<notin> set (path_basename env p)"
    and "path_join env (path_dirname env p) (path_basename env p) = p"
  shows "describeBuilder env ''$direct'' name p
           (obj [(''schema'', VBool True), (''implementation'', VStr (path_basename env p))]) None =
         Inr \<lparr> packageName = Some ''$direct'', builderName = name, description = None,
               optionSchema = VBool True, implementationPath = p,
               implementationExport = None, isNx = None \<rparr>"
  using assms
  by (simp add: describeBuilder_def loadSchema_def obj_def isJsonObject_def str_includes_def)

lemma direct_builder_descriptor:
  assumes "split_spec builderSpec = (''$direct'', Some path)"
    and "basePaths h = pre @ b # post"
    and "\<forall>x \<in> set pre. require_resolve env (path_join env x ''<synthetic>'') path = None"
    and "require_resolve env (path_join env b ''<synthetic>'') path = Some resolvedPath"
    and "import_load env resolvedPath = Inr m"
    and "typeof (default_or_module m) = TObject"
    and "isBuilder (default_or_module m) = Inr True"
    and "CHR ''#'' \<notin> set (path_basename env resolvedPath)"
    and "path_join env (path_dirname env resolvedPath) (path_basename env resolvedPath) = resolvedPath"
  shows "resolveBuilder env h builderSpec =
           Some (Inr \<lparr> packageName = Some ''$direct'', builderName = path, description = None,
                       optionSchema = VBool True, implementationPath = resolvedPath,
                       implementationExport = None, isNx = None \<rparr>)"
proof -
  have "resolveBuilderFromPath env h path =
          Inr (resolvedPath,
               obj [(''schema'', VBool True),
                    (''implementation'', VStr (path_basename env resolvedPath))])"
    using resolveBuilderFromPath_in_skip [OF assms(3,4)] directBuilderInfo_builder [OF assms(5,6,7)]
    by (simp add: resolveBuilderFromPath_def assms(2))
  then show ?thesis
    using assms(1) describeBuilder_direct [OF assms(8,9)]
    by (simp add: resolveBuilder_def)
qed

section \<open>Runs of the host in the sample workspace\<close>

lemma sample_basePaths: "basePaths sample_host = [''/ws'']"
  by code_simp

lemma split_pkg_foo: "split_spec ''pkg:foo'' = (''pkg'', Some ''foo'')"
  by code_simp

lemma split_pkg_foo_bar: "split_spec ''pkg:foo:bar'' = (''pkg'', Some ''foo'')"
  by code_simp

lemma sample_pkg_manifest:
  "loadBuilderJson sample_env sample_host ''pkg'' ''pkg:foo'' =
     Some (Inr (''/ws/node_modules/pkg/builders.json'', sample_builders, Some sample_executors))"
  by code_simp

lemma sample_describe_exec:
  "describeBuilder sample_env ''pkg'' ''foo'' ''/ws/node_modules/pkg/builders.json''
     sample_executor_entry (Some True) = Inr sample_executor_info"
  by code_simp

lemma sample_pkg_foo:
  "resolveBuilder sample_env sample_host ''pkg:foo'' = Some (Inr sample_executor_info)"
  by code_simp

lemma sample_pkg_foo_bar:
  "resolveBuilder sample_env sample_host ''pkg:foo:bar'' = Some (Inr sample_executor_info)"
  by code_simp

lemma sample_direct_build:
  "resolveBuilder sample_env sample_host ''$direct:./tools/build.js'' =
     Some (Inr sample_direct_info)"
  by code_simp

lemma sample_resolve_hash:
  "require_resolve sample_env (path_join sample_env ''/ws'' ''<synthetic>'')
     ''./tools/c#-builder.js'' = Some ''/ws/tools/c#-builder.js''"
  by code_simp

lemma sample_import_hash:
  "import_load sample_env ''/ws/tools/c#-builder.js'' = Inr (obj [(''default'', sample_builder)])"
  by code_simp

lemma sample_direct_hash:
  "resolveBuilder sample_env sample_host ''$direct:./tools/c#-builder.js'' =
     Some (Inr \<lparr> packageName = Some ''$direct'', builderName = ''./tools/c#-builder.js'',
                 description = None, optionSchema = VBool True,
                 implementationPath = ''/ws/tools/c'',
                 implementationExport = Some ''-builder.js'', isNx = None \<rparr>)"
  by code_simp

lemma sample_bad_first:
  "firstResolved sample_env (basePaths sample_host) ''bad'' =
     Some ''/ws/node_modules/bad/package.json''"
  by code_simp

lemma sample_bad_load:
  "require_load sample_env ''/ws/node_modules/bad/package.json'' =
     Some (obj [(''name'', VStr ''bad'')])"
  by code_simp

lemma sample_bad_follow:
  "followBuilders sample_env ''/ws/node_modules/bad/package.json'' (obj [(''name'', VStr ''bad'')]) =
     Some (Inr (''/ws/node_modules/bad/package.json'', obj [(''name'', VStr ''bad'')]))"
  by code_simp

lemma sample_nope_manifest:
  "loadBuilderJson sample_env sample_host ''nope'' ''nope:foo'' =
     Some (Inl (UnknownBuilderError
       (''Couldn't find builder configuration in '' @ quoted ''nope'' @ '' for builder ''
          @ quoted ''nope:foo'')))"
  by code_simp

lemma sample_getTarget: "getTarget sample_host (sample_target cs) = Inr sample_target_definition"
  by (simp add: getTarget_def getProject_def sample_host_def sample_target_def)

lemma sample_c1:
  "configurationOptions sample_target_definition ''c1'' = Some [(''b'', obj [(''y'', VNum 1)])]"
  by (simp add: configurationOptions_def sample_target_definition_def sample_configurations_def)


lemma sample_c3: "configurationOptions sample_target_definition ''c3'' = None"
  by (simp add: configurationOptions_def sample_target_definition_def sample_configurations_def
        object_prototype_keys_def)

lemma sample_names_c1_c3: "configurationNames (sample_target ''c1,c3'') = [''c1'', ''c3'']"
  by (simp add: configurationNames_def sample_target_def)



lemma sample_executor_load:
  "loadImplementation sample_env sample_executor_info = Inr (VObj FunctionObject [] None)"
  by code_simp

lemma sample_native_load_impl:
  "loadImplementation sample_env sample_native_info = Inr sample_builder"
  by code_simp

lemma sample_native_load:
  "loadBuilder sample_env sample_native_info = Inr (Unchanged sample_builder)"
  by code_simp



lemma sample_bad_manifest:
  "(\<exists>m. loadBuilderJson sample_env sample_host ''bad'' ''bad:foo'' = Some (Inl (InvalidBuilderError m)))
   \<and> resolve_start sample_env ''/ws'' ''nope'' = None"
proof -
  have n: "\<not> isJsonObject (get_prop (obj [(''name'', VStr ''bad'')]) ''builders'')"
    by (simp add: obj_def isJsonObject_def)
  have 1: "\<exists>m. loadBuilderJson sample_env sample_host ''bad'' ''bad:foo'' = Some (Inl (InvalidBuilderError m))"
    using loadBuilderJson_malformed
      [of sample_env sample_host "''bad''" "''/ws/node_modules/bad/package.json''"
          "obj [(''name'', VStr ''bad'')]" "''/ws/node_modules/bad/package.json''"
          "obj [(''name'', VStr ''bad'')]" "''bad:foo''"]
      sample_bad_first sample_bad_load sample_bad_follow n
    by blast
  have 2: "resolve_start sample_env ''/ws'' ''nope'' = None"
    using loadBuilderJson_malformed
      [of sample_env sample_host "''nope''" _ _ _ _ "''nope:foo''"]
      sample_nope_manifest sample_basePaths
    by simp
  show ?thesis using 1 2 by blast
qed

lemma sample_unknown_c3:
  "getOptionsForTarget sample_host (sample_target ''c1,c3'') =
     Inl (UnknownConfigurationError
       (''Target '' @ quoted ''build'' @ '' in project '' @ quoted ''app''
          @ '' doesn't have a configuration named '' @ quoted ''c3''))"
proof -
  have m: "''c3'' \<in> set (configurationNames (sample_target ''c1,c3''))"
    by (simp add: sample_names_c1_c3)
  from unknown_configuration_named [OF sample_getTarget m sample_c3] obtain c' where
    f: "find (\<lambda>x. configurationOptions sample_target_definition x = None)
          (configurationNames (sample_target ''c1,c3'')) = Some c'"
    and g: "getOptionsForTarget sample_host (sample_target ''c1,c3'') =
               Inl (UnknownConfigurationError
                 (''Target '' @ quoted (target (sample_target ''c1,c3'')) @ '' in project ''
                    @ quoted (project (sample_target ''c1,c3''))
                    @ '' doesn't have a configuration named '' @ quoted c'))"
    by blast
  from f have "c' = ''c3''" by (simp add: sample_names_c1_c3 sample_c1 sample_c3)
  with g show ?thesis by (simp add: sample_target_def)
qed

lemma sample_colon_manifest:
  "loadBuilderJson sample_env sample_host ''colon'' ''colon:a:b'' =
     Some (Inr (''/ws/node_modules/colon/package.json'', sample_colon_builders,
                Some sample_colon_executors))"
  by code_simp

lemma sample_colon_a_b:
  "resolveBuilder sample_env sample_host ''colon:a:b'' = Some (Inr sample_colon_info)"
  by code_simp

lemma sample_void_first:
  "firstResolved sample_env (basePaths sample_host) ''void'' =
     Some ''/ws/node_modules/void/package.json''"
  by code_simp

lemma sample_void_manifest:
  "loadBuilderJson sample_env sample_host ''void'' ''void:foo'' =
     Some (Inl (TypeError ''buildersJson.builders''))"
  by code_simp

lemma sample_host_pkg_foo_bar:
  "host_resolveBuilder sample_env sample_resolver ''pkg:foo:bar'' = Inr sample_executor_info"
  by code_simp

lemma sample_host_direct_build:
  "host_resolveBuilder sample_env sample_resolver ''$direct:./tools/build.js'' =
     Inr sample_direct_info"
  by code_simp

lemma sample_constructor:
  "getOptionsForTarget sample_host (sample_target ''constructor'') =
     Inr [(''a'', VNum 1), (''b'', obj [(''x'', VNum 1)])]"
  by (simp only: getOptionsForTarget_def sample_getTarget sum.case)
     (simp add: configurationNames_def sample_target_def configurationOptions_def
        sample_target_definition_def sample_configurations_def object_prototype_keys_def
        set_prop_def)

section \<open>The claims\<close>

text \<open>
  C1, as stated: for every name listed under both \<open>builders\<close> and \<open>executors\<close>,
  \<open>resolveBuilder\<close> on \<open><package>:<name>\<close> describes the \<open>executors\<close> entry. It does not for
  a name with a \<open>:\<close> in it. The package \<open>colon\<close> lists \<open>a:b\<close> under both; the specifier
  \<open>colon:a:b\<close> is cut into \<open>colon\<close> and \<open>a\<close>, and the descriptor is that of the builder \<open>a\<close>,
  with \<open>isNx = false\<close>.
\<close>

theorem executors_entry_colon_counterexample:
  "hasOwnProperty sample_colon_builders ''a:b''
   \<and> hasOwnProperty sample_colon_executors ''a:b''
   \<and> loadBuilderJson sample_env sample_host ''colon'' ''colon:a:b'' =
       Some (Inr (''/ws/node_modules/colon/package.json'', sample_colon_builders,
                  Some sample_colon_executors))
   \<and> resolveBuilder sample_env sample_host ''colon:a:b'' = Some (Inr sample_colon_info)
   \<and> builderName sample_colon_info = ''a''
   \<and> implementationPath sample_colon_info = ''/ws/node_modules/colon/a.js''
   \<and> isNx sample_colon_info = Some False"
  by (simp add: sample_colon_manifest sample_colon_a_b)
     (simp add: sample_colon_builders_def sample_colon_executors_def sample_colon_info_def obj_def)

text \<open>
  C1, amended. Let neither the package nor the name contain a \<open>:\<close>. When the manifest
  of the package lists the name both under \<open>builders\<close> and under \<open>executors\<close>,
  \<open>resolveBuilder\<close> on \<open><package>:<name>\<close> describes the \<open>executors\<close> entry (the descriptor is
  built from that entry, so its implementation and schema are that entry's) and marks
  it \<open>isNx = true\<close>. The \<open>builders\<close> entry plays no part: the selection is the same whatever
  the \<open>builders\<close> map holds, and if the \<open>executors\<close> entry is invalid the call fails rather
  than fall back to the \<open>builders\<close> entry.
\<close>

theorem executors_entry_wins:
  assumes "CHR '':'' \<notin> set pkg" and "CHR '':'' \<notin> set name" and "pkg \<noteq> ''$direct''"
    and "loadBuilderJson env h pkg (pkg @ '':'' @ name) =
           Some (Inr (builderPath, builderJson, Some executorsJson))"
    and "hasOwnProperty builderJson name" and "hasOwnProperty executorsJson name"
  shows "resolveBuilder env h (pkg @ '':'' @ name) =
           Some (describeBuilder env pkg name builderPath (get_prop executorsJson name) (Some True))
         \<and> (\<forall>d. resolveBuilder env h (pkg @ '':'' @ name) = Some (Inr d) \<longrightarrow> isNx d = Some True)
         \<and> (\<forall>other. selectBuilderInfo other (Some executorsJson) pkg name =
                        Inr (get_prop executorsJson name, Some True))"
proof -
  have p: "split_spec (pkg @ '':'' @ name) = (pkg, Some name)"
    by (rule split_spec_joined [OF assms(1,2)])
  have s: "selectBuilderInfo other (Some executorsJson) pkg name =
             Inr (get_prop executorsJson name, Some True)" for other
    by (rule selectBuilderInfo_executor [OF assms(6)])
  have r: "resolveBuilder env h (pkg @ '':'' @ name) =
           Some (describeBuilder env pkg name builderPath (get_prop executorsJson name) (Some True))"
    using p assms(3,4) s by (simp add: resolveBuilder_def)
  have "isNx d = Some True" if "resolveBuilder env h (pkg @ '':'' @ name) = Some (Inr d)" for d
    using that r describeBuilder_fields by fastforce
  with r s show ?thesis by blast
qed

theorem executors_entry_wins_witness:
  "hasOwnProperty sample_builders ''foo'' \<and> hasOwnProperty sample_executors ''foo''
   \<and> resolveBuilder sample_env sample_host ''pkg:foo'' = Some (Inr sample_executor_info)
   \<and> implementationPath sample_executor_info = ''/ws/node_modules/pkg/exec.js''
   \<and> isNx sample_executor_info = Some True"
proof -
  have a: "CHR '':'' \<notin> set ''pkg''" "CHR '':'' \<notin> set ''foo''" "''pkg'' \<noteq> ''$direct''"
    by simp_all
  have m: "loadBuilderJson sample_env sample_host ''pkg'' (''pkg'' @ '':'' @ ''foo'') =
             Some (Inr (''/ws/node_modules/pkg/builders.json'', sample_builders,
                        Some sample_executors))"
    using sample_pkg_manifest by simp
  have b: "hasOwnProperty sample_builders ''foo''"
    by (simp add: sample_builders_def obj_def)
  have c: "hasOwnProperty sample_executors ''foo''"
    by (simp add: sample_executors_def obj_def)
  have g: "get_prop sample_executors ''foo'' = sample_executor_entry"
    by (simp add: sample_executors_def obj_def)
  have "resolveBuilder sample_env sample_host (''pkg'' @ '':'' @ ''foo'') =
          Some (Inr sample_executor_info)"
    using executors_entry_wins [OF a m b c, THEN conjunct1]
    by (simp only: g sample_describe_exec)
  then show ?thesis using b c by (simp add: sample_executor_info_def)
qed




text \<open>
  C3. Once the implementation is loaded, \<open>loadBuilder\<close> returns it through the adapter
  exactly when \<open>isNx\<close> is \<open>true\<close>, or \<open>isNx\<close> is not \<open>false\<close> and the schema is of type
  \<open>'object'\<close> with \<open>cli === 'nx'\<close>; what the adapter gets is the loaded implementation.
  When \<open>isNx\<close> is \<open>false\<close> the adapter is never used, whatever the schema says. This holds
  for \<open>loadBuilder\<close> of both source files.
\<close>

theorem adapter_decision:
  assumes "loadImplementation env info = Inr impl"
  shows "((\<exists>v. loadBuilder env info = Inr (ExecutorIntoBuilder v)) \<longleftrightarrow>
            isNx info = Some True
            \<or> (isNx info \<noteq> Some False \<and> typeof (optionSchema info) = TObject
                 \<and> get_prop (optionSchema info) ''cli'' = VStr ''nx''))
         \<and> ((\<exists>v. host_loadBuilder env info = Inr (ExecutorIntoBuilder v)) \<longleftrightarrow>
            isNx info = Some True
            \<or> (isNx info \<noteq> Some False \<and> typeof (optionSchema info) = TObject
                 \<and> get_prop (optionSchema info) ''cli'' = VStr ''nx''))
         \<and> (\<forall>v. loadBuilder env info = Inr (ExecutorIntoBuilder v)
                  \<or> host_loadBuilder env info = Inr (ExecutorIntoBuilder v) \<longrightarrow> v = impl)
         \<and> (isNx info = Some False \<longrightarrow>
               (\<forall>v. loadBuilder env info \<noteq> Inr (ExecutorIntoBuilder v)
                    \<and> host_loadBuilder env info \<noteq> Inr (ExecutorIntoBuilder v)))"
proof -
  let ?c = "isNx info = Some True
            \<or> (isNx info \<noteq> Some False \<and> typeof (optionSchema info) = TObject
                 \<and> get_prop (optionSchema info) ''cli'' = VStr ''nx'')"
  have u: "usesAdapter info = Inr True \<longleftrightarrow> ?c"
    by (auto simp: usesAdapter_def get_prop_nullish)
  have l: "loadBuilder env info = Inr (ExecutorIntoBuilder v) \<longleftrightarrow> usesAdapter info = Inr True \<and> v = impl" for v
    using assms by (auto simp: loadBuilder_def split: sum.splits bool.splits if_splits)
  have k: "host_loadBuilder env info = Inr (ExecutorIntoBuilder v) \<longleftrightarrow> usesAdapter info = Inr True \<and> v = impl" for v
    using assms by (auto simp: host_loadBuilder_def split: sum.splits bool.splits if_splits)
  show ?thesis
    unfolding l k using u by auto
qed

theorem adapter_decision_witness:
  "loadBuilder sample_env sample_executor_info =
     Inr (ExecutorIntoBuilder (VObj FunctionObject [] None))
   \<and> host_loadBuilder sample_env sample_executor_info =
     Inr (ExecutorIntoBuilder (VObj FunctionObject [] None))
   \<and> get_prop (optionSchema sample_native_info) ''cli'' = VStr ''nx''
   \<and> loadBuilder sample_env sample_native_info = Inr (Unchanged sample_builder)
   \<and> loadBuilder sample_env sample_native_info \<noteq> Inr (ExecutorIntoBuilder sample_builder)"
proof -
  have n: "isNx sample_executor_info = Some True" by (simp add: sample_executor_info_def)
  have 1: "loadBuilder sample_env sample_executor_info =
             Inr (ExecutorIntoBuilder (VObj FunctionObject [] None))
           \<and> host_loadBuilder sample_env sample_executor_info =
             Inr (ExecutorIntoBuilder (VObj FunctionObject [] None))"
    using adapter_decision [OF sample_executor_load] n by blast
  have f: "isNx sample_native_info = Some False"
    by (simp add: sample_native_info_def sample_marked_info_def sample_direct_info_def)
  have 2: "loadBuilder sample_env sample_native_info \<noteq> Inr (ExecutorIntoBuilder sample_builder)"
    using adapter_decision [OF sample_native_load_impl] f by blast
  have 3: "get_prop (optionSchema sample_native_info) ''cli'' = VStr ''nx''"
    by (simp add: sample_native_info_def sample_marked_info_def sample_direct_info_def obj_def)
  show ?thesis using 1 2 3 sample_native_load by simp
qed



text \<open>
  C5, as stated: the name is everything after the first \<open>:\<close>. It is not:
  \<open>split(':', 2)\<close> keeps the first two pieces and drops the rest, so \<open>pkg:foo:bar\<close> names
  the entry \<open>foo\<close> of \<open>pkg\<close>, as \<open>pkg:foo\<close> does.
\<close>

theorem split_second_separator_counterexample:
  "split_spec ''pkg:foo:bar'' = (''pkg'', Some ''foo'')
   \<and> split_spec ''pkg:foo:bar'' \<noteq> (''pkg'', Some ''foo:bar'')
   \<and> resolveBuilder sample_env sample_host ''pkg:foo:bar'' = Some (Inr sample_executor_info)
   \<and> builderName sample_executor_info = ''foo''"
  by (simp add: split_pkg_foo_bar sample_pkg_foo_bar) (simp add: sample_executor_info_def)

text \<open>
  C5, amended. For a specifier with at least one \<open>:\<close>, the package is the text before
  the first \<open>:\<close> and the name is the text between the first \<open>:\<close> and the second (the
  whole remainder when there is no second one); what follows a second \<open>:\<close> is dropped.
  Both hosts put these two strings into the descriptor they return.
\<close>

theorem resolveBuilder_split:
  assumes "CHR '':'' \<in> set builderSpec"
  shows "split_spec builderSpec =
           (takeWhile (\<lambda>c. c \<noteq> CHR '':'') builderSpec,
            Some (takeWhile (\<lambda>c. c \<noteq> CHR '':'')
                    (tl (dropWhile (\<lambda>c. c \<noteq> CHR '':'') builderSpec))))
         \<and> (\<forall>d. resolveBuilder env h builderSpec = Some (Inr d)
                  \<or> host_resolveBuilder env resolver builderSpec = Inr d \<longrightarrow>
               packageName d = Some (takeWhile (\<lambda>c. c \<noteq> CHR '':'') builderSpec)
               \<and> builderName d =
                   takeWhile (\<lambda>c. c \<noteq> CHR '':'')
                     (tl (dropWhile (\<lambda>c. c \<noteq> CHR '':'') builderSpec)))"
proof (intro conjI allI impI)
  show s: "split_spec builderSpec =
           (takeWhile (\<lambda>c. c \<noteq> CHR '':'') builderSpec,
            Some (takeWhile (\<lambda>c. c \<noteq> CHR '':'')
                    (tl (dropWhile (\<lambda>c. c \<noteq> CHR '':'') builderSpec))))"
    by (rule split_spec_sep [OF assms])
  fix d
  assume "resolveBuilder env h builderSpec = Some (Inr d)
            \<or> host_resolveBuilder env resolver builderSpec = Inr d"
  then obtain name where n: "split_spec builderSpec = (the (packageName d), Some name)"
      "packageName d = Some (fst (split_spec builderSpec))" "builderName d = name"
    using resolveBuilder_fields host_resolveBuilder_fields by blast
  show "packageName d = Some (takeWhile (\<lambda>c. c \<noteq> CHR '':'') builderSpec)"
    using n(2) by (simp add: fst_split_spec)
  show "builderName d =
          takeWhile (\<lambda>c. c \<noteq> CHR '':'') (tl (dropWhile (\<lambda>c. c \<noteq> CHR '':'') builderSpec))"
    using n(1,3) s by simp
qed

theorem resolveBuilder_split_witness:
  "CHR '':'' \<in> set ''pkg:foo:bar''
   \<and> split_spec ''pkg:foo:bar'' = (''pkg'', Some ''foo'')
   \<and> resolveBuilder sample_env sample_host ''pkg:foo:bar'' = Some (Inr sample_executor_info)
   \<and> host_resolveBuilder sample_env sample_resolver ''pkg:foo:bar'' = Inr sample_executor_info
   \<and> packageName sample_executor_info = Some ''pkg''
   \<and> builderName sample_executor_info = ''foo''"
proof -
  have h: "CHR '':'' \<in> set ''pkg:foo:bar''" by simp
  show ?thesis
    using h resolveBuilder_split [OF h, of sample_env sample_host sample_resolver]
      sample_pkg_foo_bar sample_host_pkg_foo_bar
    by simp
qed

text \<open>
  C6. A specifier without a \<open>:\<close> makes \<open>resolveBuilder\<close> fail with
  \<open>InvalidBuilderSpecifiedError\<close>. The result is the same in every environment, for
  every host and for every resolver: no package is resolved, no manifest loaded and no
  module resolved or imported on the way, since those are the only things the
  environment and the resolver are asked for.
\<close>

theorem resolveBuilder_without_separator:
  assumes "CHR '':'' \<notin> set builderSpec"
  shows "resolveBuilder env h builderSpec =
           Some (Inl (InvalidBuilderSpecifiedError
             ''Builders must list a collection, use $direct as collection if you want to use a builder directly''))
         \<and> host_resolveBuilder env resolver builderSpec =
           Inl (InvalidBuilderSpecifiedError
             ''Builders must list a collection, use $direct as collection if you want to use a builder directly'')"
  using assms
  by (simp add: resolveBuilder_def host_resolveBuilder_def split_spec_no_sep no_collection_def)

theorem resolveBuilder_without_separator_witness:
  "CHR '':'' \<notin> set ''foo'' \<and>
   resolveBuilder sample_env sample_host ''foo'' =
     Some (Inl (InvalidBuilderSpecifiedError
       ''Builders must list a collection, use $direct as collection if you want to use a builder directly''))"
proof -
  have h: "CHR '':'' \<notin> set ''foo''" by simp
  show ?thesis
    using h resolveBuilder_without_separator [OF h, of sample_env sample_host] by simp
qed

text \<open>
  C7. The claim: for \<open>$direct:X\<close> where the module at \<open>X\<close> exports a value with the
  builder tag, the descriptor has \<open>implementationPath\<close> equal to the resolved path of \<open>X\<close>
  and \<open>implementationExport === null\<close>. The code at \<open>$direct:./tools/c#-builder.js\<close>: the
  entry made up for the module has \<open>implementation\<close> \<open>c#-builder.js\<close>, which is cut at its
  \<open>#\<close> like the \<open>path#export\<close> of a manifest entry, so the descriptor points at
  \<open>/ws/tools/c\<close> and names the export \<open>-builder.js\<close>.
\<close>

theorem direct_builder_hash_in_file_name:
  "require_resolve sample_env (path_join sample_env ''/ws'' ''<synthetic>'') ''./tools/c#-builder.js''
     = Some ''/ws/tools/c#-builder.js''
   \<and> import_load sample_env ''/ws/tools/c#-builder.js'' = Inr (obj [(''default'', sample_builder)])
   \<and> has_builder_symbol sample_builder \<and> truthy (builder_symbol sample_builder)
   \<and> resolveBuilder sample_env sample_host ''$direct:./tools/c#-builder.js'' =
       Some (Inr \<lparr> packageName = Some ''$direct'', builderName = ''./tools/c#-builder.js'',
                   description = None, optionSchema = VBool True,
                   implementationPath = ''/ws/tools/c'',
                   implementationExport = Some ''-builder.js'', isNx = None \<rparr>)"
  by (simp only: sample_resolve_hash sample_import_hash sample_direct_hash simp_thms)
     (simp add: sample_builder_def)





text \<open>
  C8. The claim: when the chain of manifests loads and its last document has no
  \<open>builders\<close> object, loading fails with \<open>InvalidBuilderError\<close>. The code at the package
  \<open>void\<close>: its \<open>package.json\<close> loads and points to \<open>builders.json\<close>, which loads and holds
  \<open>null\<close>. The loop then reads \<open>buildersJson.builders\<close> of \<open>null\<close>, outside every \<open>try\<close>, and
  the call ends in the \<open>TypeError\<close> of the runtime.
\<close>

theorem null_manifest_type_error:
  "firstResolved sample_env (basePaths sample_host) ''void'' =
     Some ''/ws/node_modules/void/package.json''
   \<and> require_load sample_env ''/ws/node_modules/void/package.json'' =
       Some (obj [(''name'', VStr ''void''), (''builders'', VStr ''./builders.json'')])
   \<and> require_load sample_env ''/ws/node_modules/void/builders.json'' = Some VNull
   \<and> loadBuilderJson sample_env sample_host ''void'' ''void:foo'' =
       Some (Inl (TypeError ''buildersJson.builders''))"
  by (simp only: sample_void_first sample_void_manifest simp_thms)
     (simp add: sample_env_def sample_files_def)

text \<open>
  C9. The claim: a configuration name that the target definition does not have makes
  \<open>getOptionsForTarget\<close> fail with \<open>UnknownConfigurationError\<close>. The code at the
  configuration list \<open>constructor\<close>: the target has the configurations \<open>c1\<close> and \<open>c2\<close> only,
  but the read \<open>configurations['constructor']\<close> finds the function inherited from
  \<open>Object.prototype\<close>, which is not \<open>null\<close>; nothing is thrown, nothing is copied, and the
  base options are returned.
\<close>

theorem inherited_configuration_name:
  "configurations sample_target_definition = Some sample_configurations
   \<and> sample_configurations ''constructor'' = None
   \<and> getOptionsForTarget sample_host (sample_target ''constructor'') =
       Inr [(''a'', VNum 1), (''b'', obj [(''x'', VNum 1)])]"
  by (simp only: sample_constructor simp_thms)
     (simp add: sample_target_definition_def sample_configurations_def)

text \<open>
  C10. Whenever \<open>resolveBuilder\<close> succeeds, the \<open>packageName\<close> of the descriptor is a string,
  never \<open>null\<close>: the text of the specifier before its first \<open>:\<close>. For a specifier
  \<open>$direct:<path>\<close> it is the string \<open>$direct\<close> itself. This holds for the host that
  resolves packages itself and for the host of \<open>host.ts\<close>.
\<close>

theorem packageName_is_string:
  assumes "resolveBuilder env h builderSpec = Some (Inr d)
             \<or> host_resolveBuilder env resolver builderSpec = Inr d"
  shows "packageName d \<noteq> None
         \<and> packageName d = Some (takeWhile (\<lambda>c. c \<noteq> CHR '':'') builderSpec)
         \<and> (\<forall>path. builderSpec = ''$direct:'' @ path \<longrightarrow> packageName d = Some ''$direct'')"
proof -
  have "packageName d = Some (fst (split_spec builderSpec))"
    using assms resolveBuilder_fields host_resolveBuilder_fields by blast
  then have p: "packageName d = Some (takeWhile (\<lambda>c. c \<noteq> CHR '':'') builderSpec)"
    by (simp add: fst_split_spec)
  then show ?thesis by auto
qed

theorem packageName_is_string_witness:
  "resolveBuilder sample_env sample_host ''$direct:./tools/build.js'' = Some (Inr sample_direct_info)
   \<and> host_resolveBuilder sample_env sample_resolver ''$direct:./tools/build.js'' =
       Inr sample_direct_info
   \<and> packageName sample_direct_info \<noteq> None
   \<and> packageName sample_direct_info = Some ''$direct''"
proof -
  have r: "resolveBuilder sample_env sample_host ''$direct:./tools/build.js'' =
             Some (Inr sample_direct_info)"
    by (rule sample_direct_build)
  have k: "host_resolveBuilder sample_env sample_resolver ''$direct:./tools/build.js'' =
             Inr sample_direct_info"
    by (rule sample_host_direct_build)
  show ?thesis
    using r k packageName_is_string [OF disjI1 [OF r]]
      packageName_is_string [where h = sample_host, OF disjI2 [OF k]]
    by simp
qed

end
